theory Spec2Isabelle
  imports Complex_Main "HOL-Library.AList"
begin

section \<open>Data model\<close>

text \<open>
  The envelope codec and the request orchestrator of \<^verbatim>\<open>ECCClient\<close>
  (\<^verbatim>\<open>src/crypto/types.ts\<close>). A Node \<^verbatim>\<open>Buffer\<close> is a list of bytes. A JavaScript
  string is represented by its UTF-8 encoding, also a list of bytes (strings with
  unpaired surrogates have no representation). So \<^verbatim>\<open>Buffer.from(str)\<close> and the
  \<^verbatim>\<open>'utf8'\<close> input of a hash or cipher are the identity, while \<^verbatim>\<open>buf.toString()\<close> is
  the library's UTF-8 decoder, \<open>utf8_toString\<close>: it returns well-formed input as it is
  and puts U+FFFD for every ill-formed sequence. Splitting on the colon and comparing
  strings act on the encoding as they act on the string.
\<close>

type_synonym bytes = string

text \<open>A JavaScript value as \<^verbatim>\<open>JSON.parse\<close> produces it; an object is the list of
  its own properties in insertion order. \<^verbatim>\<open>undefined\<close> is \<open>None\<close> of \<open>json option\<close>.\<close>

datatype json =
    JNull
  | JBool bool
  | JNum rat
  | JStr string
  | JArr "json list"
  | JObj "(string \<times> json) list"

text \<open>What a \<^verbatim>\<open>throw\<close> carries: \<^verbatim>\<open>new Error(message)\<close> raised by the repository's own
  code, the language's \<^verbatim>\<open>TypeError\<close> and \<^verbatim>\<open>RangeError\<close>, or an exception raised inside
  a library call (named by the call).\<close>

datatype error =
    Error string
  | TypeError
  | RangeError string
  | LibraryError string

text \<open>Calls into Node's \<^verbatim>\<open>crypto\<close> module, in the order a method makes them.\<close>

datatype crypto_call =
    CreateECDH
  | CreateHash
  | RandomBytes
  | CreateCipheriv
  | CreateHmac
  | CreateDecipheriv

text \<open>
  The library functions the client calls (Node's \<^verbatim>\<open>crypto\<close>, \<^verbatim>\<open>Buffer\<close>, \<^verbatim>\<open>JSON\<close>,
  \<^verbatim>\<open>URL\<close>). They are not code of the repository and are parameters of the model.
  \<open>None\<close> is a call that throws.
  \<^item> \<open>ecdh_public crv priv\<close>: the public key of \<^verbatim>\<open>createECDH(crv)\<close> holding \<open>priv\<close>;
  \<^item> \<open>ecdh_secret crv priv pub\<close>: \<^verbatim>\<open>setPrivateKey(priv)\<close>/\<^verbatim>\<open>generateKeys()\<close> followed
    by \<^verbatim>\<open>computeSecret(pub)\<close>;
  \<^item> \<open>aes_gcm_encrypt key iv text\<close>: ciphertext and tag of \<^verbatim>\<open>createCipheriv('aes-256-gcm', key, iv)\<close>;
  \<^item> \<open>aes_gcm_decrypt key iv ct tag\<close>: \<^verbatim>\<open>createDecipheriv\<close>, \<^verbatim>\<open>setAuthTag\<close>,
    \<^verbatim>\<open>update\<close>, \<^verbatim>\<open>final\<close>;
  \<^item> \<open>utf8_toString buf\<close>: \<^verbatim>\<open>buf.toString()\<close>;
  \<^item> \<open>buffer_from v\<close>: \<^verbatim>\<open>Buffer.from(v, encoding)\<close> for a value \<open>v\<close> that is not a
    string (the encoding is then not used);
  \<^item> \<open>URL_origin u\<close>: \<^verbatim>\<open>new URL(u)\<close> and then \<^verbatim>\<open>protocol + '//' + host\<close>.
\<close>

record runtime =
  ecdh_public :: "string \<Rightarrow> bytes \<Rightarrow> bytes"
  ecdh_secret :: "string \<Rightarrow> bytes \<Rightarrow> bytes \<Rightarrow> bytes option"
  sha256 :: "bytes \<Rightarrow> bytes"
  hmac_sha256 :: "bytes \<Rightarrow> bytes \<Rightarrow> bytes"
  aes_gcm_encrypt :: "bytes \<Rightarrow> bytes \<Rightarrow> bytes \<Rightarrow> bytes \<times> bytes"
  aes_gcm_decrypt :: "bytes \<Rightarrow> bytes \<Rightarrow> bytes \<Rightarrow> bytes \<Rightarrow> bytes option"
  to_hex :: "bytes \<Rightarrow> string"
  from_hex :: "string \<Rightarrow> bytes"
  to_base64 :: "bytes \<Rightarrow> string"
  from_base64 :: "string \<Rightarrow> bytes"
  utf8_toString :: "bytes \<Rightarrow> string"
  buffer_from :: "json \<Rightarrow> bytes option"
  JSON_stringify :: "json \<Rightarrow> string"
  JSON_parse :: "string \<Rightarrow> json option"
  encodeURIComponent :: "string \<Rightarrow> string"
  URL_origin :: "string \<Rightarrow> string option"

text \<open>The fields of an \<^verbatim>\<open>ECCClient\<close> instance. \<^verbatim>\<open>serverPublicKey\<close> is declared
  \<^verbatim>\<open>string | null\<close> but is assigned from an unchecked response body, so it holds any
  value (\<open>JNull\<close> is \<^verbatim>\<open>null\<close>).\<close>

record client =
  curve :: string
  privateKey :: string
  publicKey :: string
  serverPublicKey :: json

text \<open>What one call of \<^verbatim>\<open>encrypt\<close> draws at random: the private key of
  \<^verbatim>\<open>ephemeralECDH.generateKeys()\<close> and the bytes of \<^verbatim>\<open>crypto.randomBytes(12)\<close>.\<close>

record entropy =
  ephemeralPrivateKey :: bytes
  randomIv :: bytes

record http_request =
  req_url :: string
  req_method :: string
  req_headers :: "(string \<times> string) list"
  req_body :: "string option"

record http_response =
  resp_ok :: bool
  resp_status :: nat
  resp_text :: string

text \<open>\<^verbatim>\<open>RequestResponse\<close>, with the \<^verbatim>\<open>status\<close> that \<^verbatim>\<open>makeRequest\<close> adds.\<close>

record RequestResponse =
  status :: nat
  duration :: rat
  responseData :: "json option"
  responseText :: "string option"
  filePath :: "string option"

text \<open>The readings of \<^verbatim>\<open>Date.now()\<close> (milliseconds) and the random draws of one
  \<^verbatim>\<open>makeRequest\<close> call.\<close>

record ambient =
  draws :: entropy
  encryptNow :: int
  startTime :: int
  endTime :: int
  decryptNow :: int

section \<open>Language primitives\<close>

text \<open>\<^verbatim>\<open>String.prototype.split\<close> with a one-character separator.\<close>

fun split_on :: "char \<Rightarrow> string \<Rightarrow> string list" where
  "split_on d [] = [] # []"
| "split_on d (c # cs) =
     (if c = d then [] # split_on d cs
      else (case split_on d cs of [] \<Rightarrow> [c] # [] | p # ps \<Rightarrow> (c # p) # ps))"

text \<open>\<^verbatim>\<open>Number.prototype.toString\<close> on an integer.\<close>

definition digit_char :: "nat \<Rightarrow> char" where
  "digit_char n = char_of (48 + n)"

function show_nat :: "nat \<Rightarrow> string" where
  "show_nat n = (if n < 10 then [digit_char n] else show_nat (n div 10) @ [digit_char (n mod 10)])"
  by pat_completeness auto
termination
  by (relation "measure id") auto

declare show_nat.simps [simp del]

definition show_int :: "int \<Rightarrow> string" where
  "show_int i = (if i < 0 then CHR ''-'' # show_nat (nat (- i)) else show_nat (nat i))"

text \<open>
  The white space that \<^verbatim>\<open>parseInt\<close> skips (\<^verbatim>\<open>StrWhiteSpaceChar\<close>), each character in
  UTF-8: TAB, LF, VT, FF, CR, SPACE; U+00A0; U+1680; U+2000 to U+200A, U+2028, U+2029,
  U+202F; U+205F; U+3000; U+FEFF.
\<close>

definition whitespace :: "string list" where
  "whitespace =
     map (\<lambda>c. [c]) [CHR 0x09, CHR 0x0A, CHR 0x0B, CHR 0x0C, CHR 0x0D, CHR 0x20] @
     map (\<lambda>c. [CHR 0xC2, c]) [CHR 0xA0] @
     map (\<lambda>c. [CHR 0xE1, CHR 0x9A, c]) [CHR 0x80] @
     map (\<lambda>c. [CHR 0xE2, CHR 0x80, c])
       [CHR 0x80, CHR 0x81, CHR 0x82, CHR 0x83, CHR 0x84, CHR 0x85, CHR 0x86, CHR 0x87,
        CHR 0x88, CHR 0x89, CHR 0x8A, CHR 0xA8, CHR 0xA9, CHR 0xAF] @
     map (\<lambda>c. [CHR 0xE2, CHR 0x81, c]) [CHR 0x9F] @
     map (\<lambda>c. [CHR 0xE3, CHR 0x80, c]) [CHR 0x80] @
     map (\<lambda>c. [CHR 0xEF, CHR 0xBB, c]) [CHR 0xBF]"

definition leading_whitespace :: "string \<Rightarrow> string option" where
  "leading_whitespace s = find (\<lambda>w. w \<noteq> [] \<and> take (length w) s = w) whitespace"

function skip_whitespace :: "string \<Rightarrow> string" where
  "skip_whitespace s =
     (case leading_whitespace s of
        None \<Rightarrow> s
      | Some w \<Rightarrow> skip_whitespace (drop (length w) s))"
  by pat_completeness auto
termination
proof (relation "measure length")
  fix s w
  assume "leading_whitespace s = Some w"
  then have "w \<noteq> []" and "take (length w) s = w"
    by (auto simp: leading_whitespace_def find_Some_iff)
  then have "s \<noteq> []" by auto
  with \<open>w \<noteq> []\<close> show "(drop (length w) s, s) \<in> measure length" by simp
qed simp

declare skip_whitespace.simps [simp del]

text \<open>\<^verbatim>\<open>parseInt(s, 10)\<close>: leading white space is skipped, a sign is read, then the
  longest run of decimal digits; no digit gives \<^verbatim>\<open>NaN\<close>, here \<open>None\<close>.\<close>

definition is_digit :: "char \<Rightarrow> bool" where
  "is_digit c \<longleftrightarrow> 48 \<le> (of_char c :: nat) \<and> (of_char c :: nat) \<le> 57"

definition digit_value :: "char \<Rightarrow> nat" where
  "digit_value c = of_char c - 48"

definition decimal_value :: "string \<Rightarrow> nat" where
  "decimal_value ds = foldl (\<lambda>a c. 10 * a + digit_value c) 0 ds"

definition parseInt :: "string \<Rightarrow> int option" where
  "parseInt s =
     (let S = skip_whitespace s;
          negative = (S \<noteq> [] \<and> hd S = CHR ''-'');
          S' = (if S \<noteq> [] \<and> (hd S = CHR ''-'' \<or> hd S = CHR ''+'') then tl S else S);
          Z = takeWhile is_digit S'
      in if Z = [] then None
         else Some (if negative then - int (decimal_value Z) else int (decimal_value Z)))"

text \<open>\<^verbatim>\<open>new Date(ms).toISOString()\<close> throws a \<^verbatim>\<open>RangeError\<close> unless \<open>ms\<close> is a
  time value: a number (not \<^verbatim>\<open>NaN\<close>) of magnitude at most \<open>8.64e15\<close>.\<close>

definition valid_time_value :: "int option \<Rightarrow> bool" where
  "valid_time_value ms = (case ms of None \<Rightarrow> False | Some t \<Rightarrow> \<bar>t\<bar> \<le> 8640000000000000)"

text \<open>Truthiness of a value (\<open>None\<close> is \<^verbatim>\<open>undefined\<close>).\<close>

fun truthy :: "json option \<Rightarrow> bool" where
  "truthy None = False"
| "truthy (Some JNull) = False"
| "truthy (Some (JBool b)) = b"
| "truthy (Some (JNum n)) = (n \<noteq> 0)"
| "truthy (Some (JStr s)) = (s \<noteq> [])"
| "truthy (Some (JArr xs)) = True"
| "truthy (Some (JObj kvs)) = True"

text \<open>Reading a property that no prototype defines (\<^verbatim>\<open>ENC\<close>, \<^verbatim>\<open>serverPublicKey\<close>):
  \<^verbatim>\<open>null\<close> has no properties and the access throws a \<^verbatim>\<open>TypeError\<close>.\<close>

fun get_property :: "json \<Rightarrow> string \<Rightarrow> error + json option" where
  "get_property JNull k = Inl TypeError"
| "get_property (JObj kvs) k = Inr (map_of kvs k)"
| "get_property v k = Inr None"

section \<open>ECCClient\<close>


definition getPublicKey :: "client \<Rightarrow> string" where
  "getPublicKey c = publicKey c"

text \<open>
  \<^verbatim>\<open>encrypt(data, serverPublicKey)\<close>. The result is what the call returns or throws,
  the instance after the call and the calls made into \<^verbatim>\<open>crypto\<close>. \<open>now\<close> is the
  reading of \<^verbatim>\<open>Date.now()\<close>.

  \<open>encrypt_with\<close> is the method after its first test, with the peer key as
  \<^verbatim>\<open>Buffer.from(serverPublicKey, 'hex')\<close> delivers it (\<open>None\<close> when that call throws, which
  it does only for an argument that is not a string).
\<close>

definition encrypt_with ::
  "runtime \<Rightarrow> client \<Rightarrow> int \<Rightarrow> entropy \<Rightarrow> (string \<times> json) list \<Rightarrow> bytes option
     \<Rightarrow> (error + string) \<times> client \<times> crypto_call list" where
  "encrypt_with L c now rnd data peerKey =
     (let ephemeralPublicKey = to_hex L (ecdh_public L (curve c) (ephemeralPrivateKey rnd)) in
      case peerKey of
        None \<Rightarrow> (Inl TypeError, c, [CreateECDH])
      | Some key \<Rightarrow>
          (case ecdh_secret L (curve c) (ephemeralPrivateKey rnd) key of
             None \<Rightarrow> (Inl (LibraryError ''computeSecret''), c, [CreateECDH])
           | Some sharedSecret \<Rightarrow>
               let derivedKey = sha256 L sharedSecret;
                   aesKey = take 32 derivedKey;
                   hmacKey = derivedKey @ ''HMAC_KEY'';
                   dataWithPublicKey = JObj (AList.update ''clientPublicKey'' (JStr (publicKey c)) data);
                   jsonData = JSON_stringify L dataWithPublicKey;
                   iv = randomIv rnd;
                   (encrypted, authTag) = aes_gcm_encrypt L aesKey iv jsonData;
                   clientIdHash = take 8 (to_hex L (sha256 L (publicKey c)));
                   timestamp = show_int (now div 1000);
                   dataToAuthenticate =
                     clientIdHash @ '':'' @ ephemeralPublicKey @ '':'' @ to_base64 L iv @ '':'' @
                     to_base64 L encrypted @ '':'' @ to_base64 L authTag @ '':'' @ timestamp;
                   hmac = to_base64 L (hmac_sha256 L hmacKey dataToAuthenticate)
               in (Inr (to_base64 L (dataToAuthenticate @ '':'' @ hmac)), c,
                   [CreateECDH, CreateHash, RandomBytes, CreateCipheriv, CreateHash, CreateHmac])))"

definition encrypt ::
  "runtime \<Rightarrow> client \<Rightarrow> int \<Rightarrow> entropy \<Rightarrow> (string \<times> json) list \<Rightarrow> string
     \<Rightarrow> (error + string) \<times> client \<times> crypto_call list" where
  "encrypt L c now rnd data serverPublicKey' =
     (if serverPublicKey' = [] then (Inl (Error ''server public key not provided''), c, [])
      else encrypt_with L c now rnd data (Some (from_hex L serverPublicKey')))"

text \<open>The method called with a value that the compiler did not check to be a string
  (the cached key comes from an unchecked response body).\<close>

definition encrypt_value ::
  "runtime \<Rightarrow> client \<Rightarrow> int \<Rightarrow> entropy \<Rightarrow> (string \<times> json) list \<Rightarrow> json
     \<Rightarrow> (error + string) \<times> client \<times> crypto_call list" where
  "encrypt_value L c now rnd data v =
     (case v of
        JStr k \<Rightarrow> encrypt L c now rnd data k
      | _ \<Rightarrow>
          if \<not> truthy (Some v) then (Inl (Error ''server public key not provided''), c, [])
          else encrypt_with L c now rnd data (buffer_from L v))"

text \<open>
  \<^verbatim>\<open>decrypt(encryptedBundle)\<close> from the decoded text on. The debug line that prints the
  timestamp as a date (\<^verbatim>\<open>new Date(timestamp * 1000).toISOString()\<close>) is evaluated
  before the expiry check. The fields that go into the HMAC are those of the decoded
  text (\<^verbatim>\<open>Buffer.from(parts[i])\<close>).
\<close>

definition decrypt_decoded ::
  "runtime \<Rightarrow> client \<Rightarrow> int \<Rightarrow> string \<Rightarrow> (error + json) \<times> client \<times> crypto_call list" where
  "decrypt_decoded L c now decoded =
     (let parts = split_on (CHR '':'') decoded in
      if length parts \<noteq> 7
      then (Inl (Error (''invalid format: '' @ show_nat (length parts) @ '' parts'')), c, [])
      else
        let clientId = parts ! 0;
            ephemeralPublicKey = parts ! 1;
            iv = from_base64 L (parts ! 2);
            encryptedData = from_base64 L (parts ! 3);
            authTag = from_base64 L (parts ! 4);
            timestamp = parseInt (parts ! 5);
            receivedHmac = parts ! 6
        in
        if \<not> valid_time_value (map_option (\<lambda>t. t * 1000) timestamp)
        then (Inl (RangeError ''Invalid time value''), c, [])
        else
          let currentTime = now div 1000 in
          if (case timestamp of None \<Rightarrow> False | Some t \<Rightarrow> currentTime - t > 300)
          then (Inl (Error ''data expired''), c, [])
          else
            case ecdh_secret L (curve c) (from_hex L (privateKey c)) (from_hex L ephemeralPublicKey) of
              None \<Rightarrow> (Inl (LibraryError ''computeSecret''), c, [CreateECDH])
            | Some sharedSecret \<Rightarrow>
                let derivedKey = sha256 L sharedSecret;
                    aesKey = take 32 derivedKey;
                    hmacKey = derivedKey @ ''HMAC_KEY'';
                    dataToAuthenticate =
                      clientId @ '':'' @ ephemeralPublicKey @ '':'' @ parts ! 2 @ '':'' @
                      parts ! 3 @ '':'' @ parts ! 4 @ '':'' @ parts ! 5;
                    expectedHmac = to_base64 L (hmac_sha256 L hmacKey dataToAuthenticate)
                in
                if expectedHmac \<noteq> receivedHmac
                then (Inl (Error ''invalid hmac''), c, [CreateECDH, CreateHash, CreateHmac])
                else
                  (case aes_gcm_decrypt L aesKey iv encryptedData authTag of
                     None \<Rightarrow>
                       (Inl (LibraryError ''decipher''), c,
                        [CreateECDH, CreateHash, CreateHmac, CreateDecipheriv])
                   | Some decrypted \<Rightarrow>
                       (case JSON_parse L (utf8_toString L decrypted) of
                          Some result \<Rightarrow>
                            (Inr result, c, [CreateECDH, CreateHash, CreateHmac, CreateDecipheriv])
                        | None \<Rightarrow>
                            (Inr (JStr (utf8_toString L decrypted)), c,
                             [CreateECDH, CreateHash, CreateHmac, CreateDecipheriv]))))"

definition decrypt ::
  "runtime \<Rightarrow> client \<Rightarrow> int \<Rightarrow> string \<Rightarrow> (error + json) \<times> client \<times> crypto_call list" where
  "decrypt L c now encryptedBundle =
     decrypt_decoded L c now (utf8_toString L (from_base64 L encryptedBundle))"

text \<open>The method called with a value that the compiler did not check to be a string
  (\<^verbatim>\<open>responseData.ENC\<close> is of type \<^verbatim>\<open>any\<close>).\<close>

definition decrypt_value ::
  "runtime \<Rightarrow> client \<Rightarrow> int \<Rightarrow> json \<Rightarrow> (error + json) \<times> client \<times> crypto_call list" where
  "decrypt_value L c now v =
     (case v of
        JStr encryptedBundle \<Rightarrow> decrypt L c now encryptedBundle
      | _ \<Rightarrow>
          (case buffer_from L v of
             None \<Rightarrow> (Inl TypeError, c, [])
           | Some buf \<Rightarrow> decrypt_decoded L c now (utf8_toString L buf)))"

text \<open>
  \<^verbatim>\<open>getServerPublicKey(baseUrl)\<close>. \<open>fetch\<close> is the network: the response to a request,
  or \<open>None\<close> when the promise rejects. The body is cast to
  \<^verbatim>\<open>{ serverPublicKey?: string }\<close> without a check: a truthy value that is not a string
  is stored in the instance, and the debug line after the assignment then throws a
  \<^verbatim>\<open>TypeError\<close> (such a value has no \<^verbatim>\<open>substring\<close> method).
\<close>

definition getServerPublicKey ::
  "runtime \<Rightarrow> (http_request \<Rightarrow> http_response option) \<Rightarrow> client \<Rightarrow> string
     \<Rightarrow> (error + string) \<times> client" where
  "getServerPublicKey L fetch c baseUrl =
     (let keyEndpoint = baseUrl @ ''/api/v4/keys/public'' in
      case fetch \<lparr>req_url = keyEndpoint, req_method = ''POST'',
                   req_headers = [(''Content-Type'', ''application/json'')],
                   req_body = Some (JSON_stringify L (JObj [(''clientPublicKey'', JStr (publicKey c))]))\<rparr> of
        None \<Rightarrow> (Inl (LibraryError ''fetch''), c)
      | Some response \<Rightarrow>
          if \<not> resp_ok response
          then (Inl (Error (''error '' @ show_nat (resp_status response) @ '': '' @ resp_text response)), c)
          else
            (case JSON_parse L (resp_text response) of
               None \<Rightarrow> (Inl (LibraryError ''json''), c)
             | Some data \<Rightarrow>
                 (case get_property data ''serverPublicKey'' of
                    Inl e \<Rightarrow> (Inl e, c)
                  | Inr v \<Rightarrow>
                      if \<not> truthy v then (Inl (Error ''response missing public key''), c)
                      else
                        (case the v of
                           JStr k \<Rightarrow> (Inr k, c\<lparr>serverPublicKey := JStr k\<rparr>)
                         | w \<Rightarrow> (Inl TypeError, c\<lparr>serverPublicKey := w\<rparr>)))))"

text \<open>
  \<^verbatim>\<open>makeRequest(endpoint, data)\<close>. \<open>attempt\<close> is the inner \<^verbatim>\<open>try\<close> block, whose
  \<^verbatim>\<open>catch\<close> returns the raw text whatever was thrown inside it.
\<close>

definition makeRequest ::
  "runtime \<Rightarrow> (http_request \<Rightarrow> http_response option) \<Rightarrow> ambient \<Rightarrow> client \<Rightarrow> string
     \<Rightarrow> (string \<times> json) list \<Rightarrow> (error + RequestResponse) \<times> client" where
  "makeRequest L fetch amb c endpoint data =
     (case URL_origin L endpoint of
        None \<Rightarrow> (Inl TypeError, c)
      | Some baseUrl \<Rightarrow>
          let (handshake, c1) =
                (if \<not> truthy (Some (serverPublicKey c))
                 then getServerPublicKey L fetch c baseUrl
                 else (Inr [], c))
          in
          (case handshake of
             Inl e \<Rightarrow> (Inl e, c1)
           | Inr _ \<Rightarrow>
               if \<not> truthy (Some (serverPublicKey c1))
               then (Inl (Error ''could not obtain server public key''), c1)
               else
                 (case encrypt_value L c1 (encryptNow amb) (draws amb) data (serverPublicKey c1) of
                    (Inl e, c2, _) \<Rightarrow> (Inl e, c2)
                  | (Inr encryptedData, c2, _) \<Rightarrow>
                      let url = endpoint @ ''?ENC='' @ encodeURIComponent L encryptedData in
                      (case fetch \<lparr>req_url = url, req_method = ''GET'',
                                    req_headers = [(''Content-Type'', ''application/json'')],
                                    req_body = None\<rparr> of
                         None \<Rightarrow> (Inl (LibraryError ''fetch''), c2)
                       | Some response \<Rightarrow>
                           let duration' = of_int (endTime amb - startTime amb) / 1000 in
                           if \<not> resp_ok response
                           then (Inl (Error (''error '' @ show_nat (resp_status response) @ '': '' @
                                        resp_text response)), c2)
                           else
                             let responseText' = resp_text response;
                                 attempt =
                                   (case JSON_parse L responseText' of
                                      None \<Rightarrow> (Inl (LibraryError ''JSON.parse''), c2)
                                    | Some responseData' \<Rightarrow>
                                        (case get_property responseData' ''ENC'' of
                                           Inl e \<Rightarrow> (Inl e, c2)
                                         | Inr enc \<Rightarrow>
                                             if truthy enc
                                             then
                                               (case decrypt_value L c2 (decryptNow amb) (the enc) of
                                                  (Inl e, c3, _) \<Rightarrow> (Inl e, c3)
                                                | (Inr decryptedData, c3, _) \<Rightarrow>
                                                    (Inr \<lparr>status = resp_status response, duration = duration',
                                                          responseData = Some decryptedData,
                                                          responseText = None, filePath = None\<rparr>, c3))
                                             else
                                               (Inr \<lparr>status = resp_status response, duration = duration',
                                                     responseData = Some responseData',
                                                     responseText = None, filePath = None\<rparr>, c2)))
                             in
                             (case attempt of
                                (Inr result, c3) \<Rightarrow> (Inr result, c3)
                              | (Inl _, c3) \<Rightarrow>
                                  (Inr \<lparr>status = resp_status response, duration = duration',
                                        responseData = None,
                                        responseText = Some responseText', filePath = None\<rparr>, c3))))))"

text \<open>The round trip of the spec: \<^verbatim>\<open>decrypt(encrypt(P, peerPub))\<close>, the envelope made
  by one instance and opened by another.\<close>

definition roundtrip ::
  "runtime \<Rightarrow> client \<Rightarrow> client \<Rightarrow> int \<Rightarrow> int \<Rightarrow> entropy \<Rightarrow> (string \<times> json) list \<Rightarrow> string
     \<Rightarrow> error + json" where
  "roundtrip L sender receiver encNow decNow rnd P peerPub =
     (case fst (encrypt L sender encNow rnd P peerPub) of
        Inl e \<Rightarrow> Inl e
      | Inr envelope \<Rightarrow> fst (decrypt L receiver decNow envelope))"

section \<open>Properties required of the library\<close>

text \<open>
  Hex and base64 decode what they encode, and their alphabets are ASCII without the
  colon. The UTF-8 decoder returns ASCII text as it is, and returns the encoding of a
  string, here the one that \<^verbatim>\<open>JSON.stringify\<close> made, as it is.
\<close>

definition ascii :: "string \<Rightarrow> bool" where
  "ascii s \<longleftrightarrow> (\<forall>c \<in> set s. (of_char c :: nat) < 128)"

definition sound_codecs :: "runtime \<Rightarrow> bool" where
  "sound_codecs L \<longleftrightarrow>
     (\<forall>x. from_hex L (to_hex L x) = x) \<and>
     (\<forall>x. from_base64 L (to_base64 L x) = x) \<and>
     (\<forall>x. CHR '':'' \<notin> set (to_hex L x)) \<and>
     (\<forall>x. CHR '':'' \<notin> set (to_base64 L x)) \<and>
     (\<forall>x. ascii (to_hex L x)) \<and>
     (\<forall>x. ascii (to_base64 L x)) \<and>
     (\<forall>s. ascii s \<longrightarrow> utf8_toString L s = s) \<and>
     (\<forall>v. utf8_toString L (JSON_stringify L v) = JSON_stringify L v)"

text \<open>SHA-256 digests have 32 bytes; AES-256-GCM under a 32-byte key and a 12-byte
  iv decrypts what it encrypted when given the tag it produced.\<close>

definition sound_cipher :: "runtime \<Rightarrow> bool" where
  "sound_cipher L \<longleftrightarrow>
     (\<forall>x. length (sha256 L x) = 32) \<and>
     (\<forall>key iv text. length key = 32 \<and> length iv = 12 \<longrightarrow>
        aes_gcm_decrypt L key iv (fst (aes_gcm_encrypt L key iv text))
          (snd (aes_gcm_encrypt L key iv text)) = Some text)"

section \<open>A small runtime for running the model\<close>

text \<open>
  An instance of the library interface on which the model can be evaluated. The codecs
  keep an ASCII byte other than the colon and the percent sign and write any other
  byte as a percent sign and its eight bits; the key agreement yields one fixed secret;
  the cipher reverses the text; the texts are ASCII, which the UTF-8 decoder returns
  as they are; and \<^verbatim>\<open>JSON\<close> knows the few texts of \<open>demo_json\<close> (each paired with the
  value that \<^verbatim>\<open>JSON.parse\<close> gives for it).
\<close>

definition plain :: "char \<Rightarrow> bool" where
  "plain c \<longleftrightarrow> (of_char c :: nat) < 128 \<and> c \<noteq> CHR '':'' \<and> c \<noteq> CHR ''%''"

definition bit_char :: "bool \<Rightarrow> char" where
  "bit_char b = (if b then CHR ''1'' else CHR ''0'')"

definition escape_char :: "char \<Rightarrow> string" where
  "escape_char c =
     (if plain c then [c]
      else CHR ''%'' # map bit_char [digit0 c, digit1 c, digit2 c, digit3 c,
                                    digit4 c, digit5 c, digit6 c, digit7 c])"

definition demo_encode :: "bytes \<Rightarrow> string" where
  "demo_encode bs = concat (map escape_char bs)"

fun unescape_char :: "string \<Rightarrow> char" where
  "unescape_char [b0, b1, b2, b3, b4, b5, b6, b7] =
     Char (b0 = CHR ''1'') (b1 = CHR ''1'') (b2 = CHR ''1'') (b3 = CHR ''1'')
          (b4 = CHR ''1'') (b5 = CHR ''1'') (b6 = CHR ''1'') (b7 = CHR ''1'')"
| "unescape_char bs = CHR ''%''"

fun demo_decode :: "string \<Rightarrow> bytes" where
  "demo_decode [] = []"
| "demo_decode (c # r) =
     (if c = CHR ''%'' then unescape_char (take 8 r) # demo_decode (drop 8 r)
      else c # demo_decode r)"

definition quoted :: "string \<Rightarrow> string" where
  "quoted s = CHR 0x22 # s @ [CHR 0x22]"

definition demo_json :: "(string \<times> json) list" where
  "demo_json =
     [(''{}'', JObj []),
      (''null'', JNull),
      (''{'' @ quoted ''success'' @ '':true}'', JObj [(''success'', JBool True)]),
      (''{'' @ quoted ''clientPublicKey'' @ '':'' @ quoted ''aG'' @ ''}'',
         JObj [(''clientPublicKey'', JStr ''aG'')]),
      (''{'' @ quoted ''serverPublicKey'' @ '':'' @ quoted ''bG'' @ ''}'',
         JObj [(''serverPublicKey'', JStr ''bG'')]),
      (''{'' @ quoted ''test'' @ '':'' @ quoted ''data'' @ '','' @
         quoted ''clientPublicKey'' @ '':'' @ quoted ''aG'' @ ''}'',
         JObj [(''test'', JStr ''data''), (''clientPublicKey'', JStr ''aG'')]),
      (''{'' @ quoted ''ENC'' @ '':'' @ quoted ''AAAA'' @ ''}'', JObj [(''ENC'', JStr ''AAAA'')]),
      (''{'' @ quoted ''ENC'' @ '':'' @ quoted ''a:b:c'' @ ''}'', JObj [(''ENC'', JStr ''a:b:c'')])]"

definition demo_stringify :: "json \<Rightarrow> string" where
  "demo_stringify v = (case find (\<lambda>(s, w). w = v) demo_json of Some (s, w) \<Rightarrow> s | None \<Rightarrow> ''null'')"

definition demo :: runtime where
  "demo =
     \<lparr>ecdh_public = (\<lambda>crv priv. priv @ ''G''),
      ecdh_secret = (\<lambda>crv priv pub. if priv = [] \<or> pub = [] then None else Some ''K''),
      sha256 = (\<lambda>x. take 32 (x @ replicate 32 (CHR ''0''))),
      hmac_sha256 = (\<lambda>key text. take 1 key @ take 3 (rev text)),
      aes_gcm_encrypt = (\<lambda>key iv text. (rev text, take 1 key @ take 1 iv)),
      aes_gcm_decrypt =
        (\<lambda>key iv ct tag. if tag = take 1 key @ take 1 iv then Some (rev ct) else None),
      to_hex = demo_encode,
      from_hex = demo_decode,
      to_base64 = demo_encode,
      from_base64 = demo_decode,
      utf8_toString = (\<lambda>buf. buf),
      buffer_from = (\<lambda>v. None),
      JSON_stringify = demo_stringify,
      JSON_parse = map_of demo_json,
      encodeURIComponent = (\<lambda>s. s),
      URL_origin =
        (\<lambda>u. if take 23 u = ''https://api.example.com'' then Some ''https://api.example.com''
             else None)\<rparr>"

text \<open>Two instances, \<open>alice\<close> sending and \<open>bob\<close> receiving, and a network that answers
  the handshake and the main request.\<close>

definition alice :: client where
  "alice = \<lparr>curve = ''prime256v1'', privateKey = ''a'', publicKey = ''aG'', serverPublicKey = JNull\<rparr>"

definition bob :: client where
  "bob = \<lparr>curve = ''prime256v1'', privateKey = ''b'', publicKey = ''bG'', serverPublicKey = JNull\<rparr>"

text \<open>\<open>carol\<close> is \<open>alice\<close> after the handshake, holding \<open>bob\<close>'s public key.\<close>

definition carol :: client where
  "carol = alice\<lparr>serverPublicKey := JStr ''bG''\<rparr>"

definition demo_draws :: entropy where
  "demo_draws = \<lparr>ephemeralPrivateKey = ''e'', randomIv = ''123456789012''\<rparr>"

definition demo_ambient :: ambient where
  "demo_ambient =
     \<lparr>draws = demo_draws, encryptNow = 1609459200000, startTime = 1609459200010,
      endTime = 1609459200510, decryptNow = 1609459201000\<rparr>"

definition demo_fetch :: "string \<Rightarrow> http_request \<Rightarrow> http_response option" where
  "demo_fetch body req =
     (if req_method req = ''POST''
      then (if req_url req = ''https://api.example.com/api/v4/keys/public''
            then Some \<lparr>resp_ok = True, resp_status = 200,
                       resp_text = ''{'' @ quoted ''serverPublicKey'' @ '':'' @ quoted ''bG'' @ ''}''\<rparr>
            else None)
      else Some \<lparr>resp_ok = True, resp_status = 200, resp_text = body\<rparr>)"

section \<open>Facts about the language primitives\<close>

lemma split_on_no_sep: "d \<notin> set a \<Longrightarrow> split_on d a = [a]"
  by (induction a) auto

lemma split_on_append: "d \<notin> set a \<Longrightarrow> split_on d (a @ d # rest) = a # split_on d rest"
  by (induction a) auto

lemma digit_char_is_digit: "n < 10 \<Longrightarrow> is_digit (digit_char n)"
  by (simp add: is_digit_def digit_char_def)

lemma digit_value_digit_char: "n < 10 \<Longrightarrow> digit_value (digit_char n) = n"
  by (simp add: digit_value_def digit_char_def)

lemma show_nat_digits: "\<forall>c \<in> set (show_nat n). is_digit c"
proof (induction n rule: show_nat.induct)
  case (1 n)
  show ?case
  proof (cases "n < 10")
    case True
    then show ?thesis by (subst show_nat.simps) (simp add: digit_char_is_digit)
  next
    case False
    with 1 show ?thesis by (subst show_nat.simps) (simp add: digit_char_is_digit)
  qed
qed

lemma show_nat_nonempty: "show_nat n \<noteq> []"
  by (subst show_nat.simps) simp

lemma decimal_value_snoc: "decimal_value (ds @ [c]) = 10 * decimal_value ds + digit_value c"
  by (simp add: decimal_value_def)

lemma decimal_value_show_nat: "decimal_value (show_nat n) = n"
proof (induction n rule: show_nat.induct)
  case (1 n)
  show ?case
  proof (cases "n < 10")
    case True
    then show ?thesis
      by (subst show_nat.simps) (simp add: decimal_value_def digit_value_digit_char)
  next
    case False
    with 1 show ?thesis
      by (subst show_nat.simps) (simp add: decimal_value_snoc digit_value_digit_char)
  qed
qed

lemma digit_char_table:
  "digit_char 0 = CHR ''0''" "digit_char (Suc 0) = CHR ''1''" "digit_char 2 = CHR ''2''"
  "digit_char 3 = CHR ''3''" "digit_char 4 = CHR ''4''" "digit_char 5 = CHR ''5''"
  "digit_char 6 = CHR ''6''" "digit_char 7 = CHR ''7''" "digit_char 8 = CHR ''8''"
  "digit_char 9 = CHR ''9''"
  by code_simp+

lemma show_nat_numeral:
  "show_nat (numeral k) =
     (if (numeral k :: nat) < 10 then [digit_char (numeral k)]
      else show_nat (numeral k div 10) @ [digit_char (numeral k mod 10)])"
  by (rule show_nat.simps)

lemma show_nat_one: "show_nat (Suc 0) = ''1''"
  by (simp add: show_nat.simps [of "Suc 0"] digit_char_table)

lemma show_nat_three: "show_nat (Suc (Suc (Suc 0))) = ''3''"
  by code_simp

lemma show_int_demo: "show_int 1609459200 = ''1609459200''"
  by (simp add: show_int_def show_nat_numeral show_nat_one digit_char_table)

text \<open>White space starts with one of eleven bytes, none of them a digit or a sign.\<close>

lemma whitespace_heads:
  "w \<in> set whitespace \<Longrightarrow>
     w \<noteq> [] \<and> (of_char (hd w) :: nat) \<in> {9, 10, 11, 12, 13, 32, 194, 225, 226, 227, 239}"
  by (auto simp: whitespace_def)

lemma leading_whitespace_none:
  assumes "s = [] \<or> (of_char (hd s) :: nat) \<notin> {9, 10, 11, 12, 13, 32, 194, 225, 226, 227, 239}"
  shows "leading_whitespace s = None"
proof -
  have "\<not> (w \<noteq> [] \<and> take (length w) s = w)" if "w \<in> set whitespace" for w
  proof
    assume a: "w \<noteq> [] \<and> take (length w) s = w"
    then have "s \<noteq> []" by auto
    with a have "hd s = hd w"
      by (cases s; cases w) auto
    with assms \<open>s \<noteq> []\<close> whitespace_heads [OF that] show False by simp
  qed
  then show ?thesis
    by (auto simp: leading_whitespace_def find_None_iff)
qed

lemma skip_whitespace_id:
  "s = [] \<or> (of_char (hd s) :: nat) \<notin> {9, 10, 11, 12, 13, 32, 194, 225, 226, 227, 239} \<Longrightarrow>
     skip_whitespace s = s"
  by (subst skip_whitespace.simps) (simp add: leading_whitespace_none)

lemma is_digit_not_special:
  "is_digit c \<Longrightarrow>
     c \<noteq> CHR ''-'' \<and> c \<noteq> CHR ''+'' \<and> c \<noteq> CHR '':'' \<and> (of_char c :: nat) < 128 \<and>
     (of_char c :: nat) \<notin> {9, 10, 11, 12, 13, 32, 194, 225, 226, 227, 239}"
  by (auto simp: is_digit_def)

text \<open>A no-break space before the digits is skipped, as JavaScript does.\<close>

lemma skip_whitespace_nbsp: "skip_whitespace ([CHR 0xC2, CHR 0xA0] @ ''100'') = ''100''"
proof -
  have "leading_whitespace ([CHR 0xC2, CHR 0xA0] @ ''100'') = Some [CHR 0xC2, CHR 0xA0]"
    by (simp add: leading_whitespace_def whitespace_def)
  then show ?thesis
    by (subst skip_whitespace.simps) (simp add: skip_whitespace_id)
qed

lemma parseInt_nbsp: "parseInt ([CHR 0xC2, CHR 0xA0] @ ''100'') = Some 100"
  using skip_whitespace_nbsp
  by (simp add: parseInt_def is_digit_def decimal_value_def digit_value_def)

lemma takeWhile_show_nat: "takeWhile is_digit (show_nat n) = show_nat n"
  using show_nat_digits [of n] by (simp add: takeWhile_eq_all_conv)

lemma hd_show_nat_digit: "is_digit (hd (show_nat n))"
  using show_nat_digits [of n] show_nat_nonempty [of n] by (cases "show_nat n") auto

lemma skip_whitespace_show_nat: "skip_whitespace (show_nat n) = show_nat n"
  using hd_show_nat_digit [of n] is_digit_not_special by (intro skip_whitespace_id) blast

text \<open>\<^verbatim>\<open>parseInt\<close> reads back what \<^verbatim>\<open>toString\<close> wrote.\<close>

lemma parseInt_show_int: "parseInt (show_int i) = Some i"
proof (cases "i < 0")
  case True
  have ws: "skip_whitespace (CHR ''-'' # show_nat (nat (- i))) = CHR ''-'' # show_nat (nat (- i))"
    by (rule skip_whitespace_id) simp
  from True ws show ?thesis
    by (simp add: parseInt_def show_int_def takeWhile_show_nat show_nat_nonempty
          decimal_value_show_nat)
next
  case False
  have h: "hd (show_nat (nat i)) \<noteq> CHR ''-'' \<and> hd (show_nat (nat i)) \<noteq> CHR ''+''"
    using hd_show_nat_digit [of "nat i"] is_digit_not_special by blast
  from False h show ?thesis
    by (simp add: parseInt_def show_int_def skip_whitespace_show_nat takeWhile_show_nat
          show_nat_nonempty decimal_value_show_nat)
qed

lemma colon_notin_show_int: "CHR '':'' \<notin> set (show_int i)"
  using show_nat_digits is_digit_not_special by (auto simp: show_int_def)

lemma ascii_append: "ascii (a @ b) \<longleftrightarrow> ascii a \<and> ascii b"
  by (auto simp: ascii_def)

lemma ascii_Cons: "ascii (c # s) \<longleftrightarrow> (of_char c :: nat) < 128 \<and> ascii s"
  by (simp add: ascii_def)

lemma ascii_take: "ascii s \<Longrightarrow> ascii (take n s)"
  by (auto simp: ascii_def dest: in_set_takeD)

lemma ascii_show_int: "ascii (show_int i)"
  using show_nat_digits is_digit_not_special by (auto simp: show_int_def ascii_def)

lemma split_on_seven:
  assumes "d \<notin> set a" "d \<notin> set b" "d \<notin> set e" "d \<notin> set f" "d \<notin> set g" "d \<notin> set h" "d \<notin> set k"
  shows "split_on d (a @ d # b @ d # e @ d # f @ d # g @ d # h @ d # k) = [a, b, e, f, g, h, k]"
  using assms by (simp add: split_on_append split_on_no_sep)

text \<open>Whole seconds of a clock reading in the range of dates are in that range.\<close>

lemma seconds_in_range:
  assumes "\<bar>n\<bar> \<le> 8640000000000000"
  shows "\<bar>(n::int) div 1000 * 1000\<bar> \<le> 8640000000000000"
proof -
  have up: "n div 1000 * 1000 \<le> n"
    using minus_mod_eq_div_mult [of n 1000] pos_mod_sign [of 1000 n] by linarith
  have "(- 8640000000000000) div 1000 \<le> n div 1000"
    using assms by (intro zdiv_mono1) auto
  then have lo: "- 8640000000000 \<le> n div 1000" by simp
  from up lo assms show ?thesis by linarith
qed

lemma bit_char_one: "bit_char b = CHR ''1'' \<longleftrightarrow> b"
  by (simp add: bit_char_def)

lemma demo_decode_escape: "demo_decode (escape_char c @ r) = c # demo_decode r"
  by (simp add: escape_char_def plain_def bit_char_one)

lemma demo_decode_encode: "demo_decode (demo_encode x) = x"
proof (induction x)
  case Nil
  show ?case by (simp add: demo_encode_def)
next
  case (Cons c x)
  have "demo_encode (c # x) = escape_char c @ demo_encode x"
    by (simp add: demo_encode_def)
  with Cons show ?case by (simp only: demo_decode_escape)
qed

lemma escape_char_alphabet:
  assumes "d \<in> set (escape_char c)"
  shows "d \<noteq> CHR '':'' \<and> (of_char d :: nat) < 128"
proof (cases "plain c")
  case True
  with assms have "d = c" by (simp add: escape_char_def)
  with True show ?thesis by (simp add: plain_def)
next
  case False
  with assms obtain b where "d = CHR ''%'' \<or> d = bit_char b"
    by (auto simp: escape_char_def)
  then show ?thesis by (cases b) (auto simp: bit_char_def)
qed

lemma demo_encode_no_colon: "CHR '':'' \<notin> set (demo_encode x)"
  using escape_char_alphabet by (auto simp: demo_encode_def)

lemma demo_encode_ascii: "ascii (demo_encode x)"
  using escape_char_alphabet by (auto simp: demo_encode_def ascii_def)

lemma sound_codecs_demo: "sound_codecs demo"
  by (simp add: sound_codecs_def demo_def demo_decode_encode demo_encode_no_colon demo_encode_ascii)

lemma sound_cipher_demo: "sound_cipher demo"
  by (auto simp: sound_cipher_def demo_def)


lemma demo_get: "demo_fetch body \<lparr>req_url = u, req_method = ''GET'', req_headers = h, req_body = None\<rparr> =
    Some \<lparr>resp_ok = True, resp_status = 200, resp_text = body\<rparr>"
  by (simp add: demo_fetch_def)

lemma demo_origin: "URL_origin demo ''https://api.example.com/endpoint'' = Some ''https://api.example.com''"
  by (simp add: demo_def)

lemma demo_decrypt_AAAA:
  "fst (decrypt demo c now ''AAAA'') = Inl (Error ''invalid format: 1 parts'')"
  by (simp add: decrypt_def decrypt_decoded_def demo_def show_nat_one)

lemma demo_decrypt_abc:
  "fst (decrypt demo c now ''a:b:c'') = Inl (Error ''invalid format: 3 parts'')"
  by (simp add: decrypt_def decrypt_decoded_def demo_def show_nat_three)

lemma parseInt_demo_timestamp: "parseInt ''1609459200'' = Some 1609459200"
  by (simp add: parseInt_def skip_whitespace_id is_digit_def decimal_value_def digit_value_def)

lemma parseInt_far_future: "parseInt ''8640000000001'' = Some 8640000000001"
  by (simp add: parseInt_def skip_whitespace_id is_digit_def decimal_value_def digit_value_def)

lemma parseInt_far_past: "parseInt ''-8640000000001'' = Some (- 8640000000001)"
  by (simp add: parseInt_def skip_whitespace_id is_digit_def decimal_value_def digit_value_def)

lemma parseInt_abc: "parseInt ''abc'' = None"
  by (simp add: parseInt_def skip_whitespace_id is_digit_def)

lemma demo_mac_key: "sha256 demo ''K'' @ ''HMAC_KEY'' = ''K0000000000000000000000000000000HMAC_KEY''"
  by (simp add: demo_def eval_nat_numeral)

lemma demo_split_envelope:
  "split_on (CHR '':'') (utf8_toString demo (from_base64 demo ''id:eG:iv:data:tag:1609459200:mac'')) =
     [''id'', ''eG'', ''iv'', ''data'', ''tag'', ''1609459200'', ''mac'']"
  by (simp add: demo_def)


section \<open>The envelope codec\<close>

text \<open>
  C6. \<^verbatim>\<open>encrypt(payload, "")\<close> fails for every payload with the error the spec calls
  \<^verbatim>\<open>MissingPeerKeyError\<close> (the source's \<^verbatim>\<open>Error('server public key not provided')\<close>),
  and it has made no call into \<^verbatim>\<open>crypto\<close> by then: no ECDH object, no hash, no cipher.
\<close>

theorem encrypt_missing_peer_key:
  "encrypt L c now rnd data [] = (Inl (Error ''server public key not provided''), c, [])"
  by (simp add: encrypt_def)

text \<open>
  C5. When the base64-decoded input splits on the colon into a number of fields other
  than 7, \<^verbatim>\<open>decrypt\<close> fails with the error the spec calls \<^verbatim>\<open>MalformedEnvelopeError\<close>
  (the source's \<^verbatim>\<open>Error(`invalid format: ${parts.length} parts`)\<close>), whose message
  carries the actual count, and no call into \<^verbatim>\<open>crypto\<close> has been made.
\<close>

theorem decrypt_malformed:
  "length (split_on (CHR '':'') (utf8_toString L (from_base64 L bundle))) \<noteq> 7 \<Longrightarrow>
   decrypt L c now bundle =
     (Inl (Error (''invalid format: '' @
                  show_nat (length (split_on (CHR '':'') (utf8_toString L (from_base64 L bundle)))) @
                  '' parts'')),
      c, [])"
  by (simp add: decrypt_def decrypt_decoded_def)

theorem decrypt_malformed_witness:
  "length (split_on (CHR '':'') (utf8_toString demo (from_base64 demo ''a:b:c''))) \<noteq> 7 \<and>
   decrypt demo bob 0 ''a:b:c'' = (Inl (Error ''invalid format: 3 parts''), bob, [])"
  using decrypt_malformed [of demo "''a:b:c''" bob 0]
  by (simp add: demo_def show_nat_three)

text \<open>
  C9. Neither \<^verbatim>\<open>encrypt\<close> nor \<^verbatim>\<open>decrypt\<close> writes to the instance: whatever the
  arguments and whether the call returns or throws, the instance after the call
  (\<^verbatim>\<open>curve\<close>, \<^verbatim>\<open>privateKey\<close>, \<^verbatim>\<open>publicKey\<close>, \<^verbatim>\<open>serverPublicKey\<close>) is the instance
  before it. The key pair that \<^verbatim>\<open>encrypt\<close> works with is the ephemeral one drawn in
  that call, not the long-term pair: the outcome of \<^verbatim>\<open>encrypt\<close> does not depend on
  \<^verbatim>\<open>privateKey\<close>, and the ephemeral pair is never stored.
\<close>

theorem encrypt_decrypt_frame:
  "fst (snd (encrypt L c now rnd data peerKey)) = c \<and>
   fst (snd (decrypt L c now bundle)) = c \<and>
   fst (encrypt L (c\<lparr>privateKey := p\<rparr>) now rnd data peerKey) = fst (encrypt L c now rnd data peerKey)"
  by (simp add: encrypt_def encrypt_with_def decrypt_def decrypt_decoded_def Let_def
           split: option.splits prod.splits)

subsection \<open>The timestamp\<close>

text \<open>
  The debug line of \<^verbatim>\<open>decrypt\<close> formats the timestamp as a date before anything is
  checked. When the timestamp is not a date (\<^verbatim>\<open>NaN\<close>, or beyond \<open>8.64e15\<close> milliseconds
  either way) \<^verbatim>\<open>toISOString()\<close> throws, and \<^verbatim>\<open>decrypt\<close> ends there, whatever the clock,
  the keys and the mac.
\<close>

lemma decrypt_invalid_date:
  assumes "split_on (CHR '':'') (utf8_toString L (from_base64 L bundle)) = parts"
    and "length parts = 7"
    and "\<not> valid_time_value (map_option (\<lambda>t. t * 1000) (parseInt (parts ! 5)))"
  shows "decrypt L c now bundle = (Inl (RangeError ''Invalid time value''), c, [])"
  using assms by (simp add: decrypt_def decrypt_decoded_def Let_def)

text \<open>
  For a timestamp that is a date the expiry rule is the one of the spec:
  \<^verbatim>\<open>Error('data expired')\<close> exactly when \<open>currentTime - t > 300\<close>, and a timestamp that is
  not expired, one in the future included, lets the call go on to the key agreement.
\<close>

lemma decrypt_expiry_of_a_date:
  assumes "split_on (CHR '':'') (utf8_toString L (from_base64 L bundle)) = parts"
    and "length parts = 7"
    and "parseInt (parts ! 5) = Some t"
    and "\<bar>t * 1000\<bar> \<le> 8640000000000000"
  shows "(fst (decrypt L c now bundle) = Inl (Error ''data expired'')) = (now div 1000 - t > 300) \<and>
         (\<not> now div 1000 - t > 300 \<longrightarrow> CreateECDH \<in> set (snd (snd (decrypt L c now bundle))))"
  using assms
  by (simp add: decrypt_def decrypt_decoded_def Let_def valid_time_value_def
           split: option.splits prod.splits)

lemma decrypt_expiry_boundary:
  "fst (decrypt demo bob 1609459501000 ''id:eG:iv:data:tag:1609459200:mac'') =
     Inl (Error ''data expired'') \<and>
   fst (decrypt demo bob 1609459500999 ''id:eG:iv:data:tag:1609459200:mac'') \<noteq>
     Inl (Error ''data expired'')"
proof -
  let ?p = "[''id'', ''eG'', ''iv'', ''data'', ''tag'', ''1609459200'', ''mac'']"
  note s = demo_split_envelope
  have l: "length ?p = 7" by simp
  have t: "parseInt (?p ! 5) = Some 1609459200"
    by (simp add: parseInt_demo_timestamp)
  have v: "\<bar>(1609459200::int) * 1000\<bar> \<le> 8640000000000000" by simp
  show ?thesis
    using decrypt_expiry_of_a_date [OF s l t v, of bob 1609459501000]
          decrypt_expiry_of_a_date [OF s l t v, of bob 1609459500999]
    by simp
qed

text \<open>
  C3. The claim fails where the timestamp is beyond the range of dates: an envelope of
  seven fields whose timestamp parses to a number \<open>t\<close> with \<open>|t * 1000| > 8.64e15\<close> is
  rejected with \<^verbatim>\<open>RangeError('Invalid time value')\<close> before the expiry check and before
  any call into \<^verbatim>\<open>crypto\<close>. So a timestamp in the far future is rejected, where the claim
  has every future timestamp pass, and one in the far past does not give the expiry
  error, where the claim has it expire.
\<close>

theorem decrypt_timestamp_beyond_dates:
  assumes "split_on (CHR '':'') (utf8_toString L (from_base64 L bundle)) = parts"
    and "length parts = 7"
    and "parseInt (parts ! 5) = Some t"
    and "8640000000000000 < \<bar>t * 1000\<bar>"
  shows "decrypt L c now bundle = (Inl (RangeError ''Invalid time value''), c, [])"
  using assms by (simp add: decrypt_def decrypt_decoded_def Let_def valid_time_value_def)

theorem decrypt_timestamp_beyond_dates_witness:
  "parseInt ''8640000000001'' = Some 8640000000001 \<and>
   (101000 :: int) div 1000 - 8640000000001 < 0 \<and>
   decrypt demo bob 101000 ''id:eG:iv:data:tag:8640000000001:mac'' =
     (Inl (RangeError ''Invalid time value''), bob, []) \<and>
   parseInt ''-8640000000001'' = Some (- 8640000000001) \<and>
   (101000 :: int) div 1000 - (- 8640000000001) > 300 \<and>
   decrypt demo bob 101000 ''id:eG:iv:data:tag:-8640000000001:mac'' =
     (Inl (RangeError ''Invalid time value''), bob, [])"
proof -
  let ?f = "[''id'', ''eG'', ''iv'', ''data'', ''tag'', ''8640000000001'', ''mac'']"
  let ?p = "[''id'', ''eG'', ''iv'', ''data'', ''tag'', ''-8640000000001'', ''mac'']"
  have sf: "split_on (CHR '':'')
      (utf8_toString demo (from_base64 demo ''id:eG:iv:data:tag:8640000000001:mac'')) = ?f"
    by (simp add: demo_def)
  have sp: "split_on (CHR '':'')
      (utf8_toString demo (from_base64 demo ''id:eG:iv:data:tag:-8640000000001:mac'')) = ?p"
    by (simp add: demo_def)
  have lf: "length ?f = 7" and lp: "length ?p = 7" by simp_all
  have tf: "parseInt (?f ! 5) = Some 8640000000001"
    by (simp add: parseInt_far_future)
  have tp: "parseInt (?p ! 5) = Some (- 8640000000001)"
    by (simp add: parseInt_far_past)
  have vf: "8640000000000000 < \<bar>(8640000000001 :: int) * 1000\<bar>" by simp
  have vp: "8640000000000000 < \<bar>(- 8640000000001 :: int) * 1000\<bar>" by simp
  show ?thesis
    using decrypt_timestamp_beyond_dates [OF sf lf tf vf, of bob 101000]
          decrypt_timestamp_beyond_dates [OF sp lp tp vp, of bob 101000]
          parseInt_far_future parseInt_far_past
    by simp
qed

subsection \<open>Authentication before decryption\<close>

text \<open>
  \<^verbatim>\<open>createDecipheriv\<close> is called only after the HMAC of the six fields has been found
  equal to the seventh: on every path of \<^verbatim>\<open>decrypt\<close> that reaches the cipher, the key
  agreement gave a secret and the mac matched.
\<close>

lemma decrypt_authenticates_first:
  assumes "split_on (CHR '':'') (utf8_toString L (from_base64 L bundle)) = parts"
    and "CreateDecipheriv \<in> set (snd (snd (decrypt L c now bundle)))"
  shows "\<exists>secret.
           ecdh_secret L (curve c) (from_hex L (privateKey c)) (from_hex L (parts ! 1)) = Some secret \<and>
           to_base64 L (hmac_sha256 L (sha256 L secret @ ''HMAC_KEY'')
             (parts ! 0 @ '':'' @ parts ! 1 @ '':'' @ parts ! 2 @ '':'' @ parts ! 3 @ '':'' @
              parts ! 4 @ '':'' @ parts ! 5)) = parts ! 6"
  using assms
  by (auto simp: decrypt_def decrypt_decoded_def Let_def split: if_splits option.splits)

text \<open>
  For an envelope whose timestamp is a date and not expired, a wrong mac gives
  \<^verbatim>\<open>Error('invalid hmac')\<close>, after the calls for the key agreement, the digest and the
  HMAC only.
\<close>

lemma decrypt_invalid_hmac_of_a_date:
  assumes "split_on (CHR '':'') (utf8_toString L (from_base64 L bundle)) = parts"
    and "length parts = 7"
    and "parseInt (parts ! 5) = Some t"
    and "\<bar>t * 1000\<bar> \<le> 8640000000000000"
    and "\<not> now div 1000 - t > 300"
    and "ecdh_secret L (curve c) (from_hex L (privateKey c)) (from_hex L (parts ! 1)) = Some secret"
    and "to_base64 L (hmac_sha256 L (sha256 L secret @ ''HMAC_KEY'')
           (parts ! 0 @ '':'' @ parts ! 1 @ '':'' @ parts ! 2 @ '':'' @ parts ! 3 @ '':'' @
            parts ! 4 @ '':'' @ parts ! 5)) \<noteq> parts ! 6"
  shows "decrypt L c now bundle =
           (Inl (Error ''invalid hmac''), c, [CreateECDH, CreateHash, CreateHmac])"
  using assms
  by (simp add: decrypt_def decrypt_decoded_def Let_def valid_time_value_def)

lemma demo_wrong_mac:
  "decrypt demo bob 1609459201000 ''id:eG:iv:data:tag:1609459200:mac'' =
     (Inl (Error ''invalid hmac''), bob, [CreateECDH, CreateHash, CreateHmac])"
proof -
  let ?p = "[''id'', ''eG'', ''iv'', ''data'', ''tag'', ''1609459200'', ''mac'']"
  note s = demo_split_envelope
  have l: "length ?p = 7" by simp
  have t: "parseInt (?p ! 5) = Some 1609459200"
    by (simp add: parseInt_demo_timestamp)
  have v: "\<bar>(1609459200::int) * 1000\<bar> \<le> 8640000000000000" by simp
  have n: "\<not> (1609459201000::int) div 1000 - 1609459200 > 300" by simp
  have k: "ecdh_secret demo (curve bob) (from_hex demo (privateKey bob)) (from_hex demo (?p ! 1)) =
             Some ''K''"
    by (simp add: demo_def bob_def)
  have m: "to_base64 demo (hmac_sha256 demo (sha256 demo ''K'' @ ''HMAC_KEY'')
             (?p ! 0 @ '':'' @ ?p ! 1 @ '':'' @ ?p ! 2 @ '':'' @ ?p ! 3 @ '':'' @
              ?p ! 4 @ '':'' @ ?p ! 5)) \<noteq> ?p ! 6"
    by (simp add: demo_mac_key) (simp add: demo_def demo_encode_def escape_char_def plain_def)
  show ?thesis
    by (rule decrypt_invalid_hmac_of_a_date [OF s l t v n k m])
qed

text \<open>
  C4. The claim fails where the timestamp is not a date. The envelope below has seven
  fields, a timestamp in the future (so it is not expired), a key agreement that
  yields a secret, and a mac that differs from the HMAC of its six fields; \<^verbatim>\<open>decrypt\<close>
  fails with \<^verbatim>\<open>RangeError('Invalid time value')\<close>, not with the error the spec calls
  \<^verbatim>\<open>AuthenticationError\<close>. The cipher is not reached, as on every path without a
  matching mac.
\<close>

theorem decrypt_wrong_mac_not_a_date:
  "length (split_on (CHR '':'')
     (utf8_toString demo (from_base64 demo ''id:eG:iv:data:tag:8640000000001:bad''))) = 7 \<and>
   \<not> (101000 :: int) div 1000 - 8640000000001 > 300 \<and>
   ecdh_secret demo (curve bob) (from_hex demo (privateKey bob)) (from_hex demo ''eG'') = Some ''K'' \<and>
   to_base64 demo (hmac_sha256 demo (sha256 demo ''K'' @ ''HMAC_KEY'')
      ''id:eG:iv:data:tag:8640000000001'') \<noteq> ''bad'' \<and>
   decrypt demo bob 101000 ''id:eG:iv:data:tag:8640000000001:bad'' =
     (Inl (RangeError ''Invalid time value''), bob, [])"
proof -
  let ?p = "[''id'', ''eG'', ''iv'', ''data'', ''tag'', ''8640000000001'', ''bad'']"
  have s: "split_on (CHR '':'')
      (utf8_toString demo (from_base64 demo ''id:eG:iv:data:tag:8640000000001:bad'')) = ?p"
    by (simp add: demo_def)
  have l: "length ?p = 7" by simp
  have v: "\<not> valid_time_value (map_option (\<lambda>t. t * 1000) (parseInt (?p ! 5)))"
    by (simp add: parseInt_far_future valid_time_value_def)
  have k: "ecdh_secret demo (curve bob) (from_hex demo (privateKey bob)) (from_hex demo ''eG'') =
             Some ''K''"
    by (simp add: demo_def bob_def)
  have m: "to_base64 demo (hmac_sha256 demo (sha256 demo ''K'' @ ''HMAC_KEY'')
             ''id:eG:iv:data:tag:8640000000001'') \<noteq> ''bad''"
    by (simp add: demo_mac_key) (simp add: demo_def demo_encode_def escape_char_def plain_def)
  show ?thesis
    using decrypt_invalid_date [OF s l v, of bob 101000] s k m
    by simp
qed

text \<open>
  C10. An envelope of seven fields whose timestamp field does not parse
  (\<^verbatim>\<open>parseInt\<close> gives \<^verbatim>\<open>NaN\<close>) never reaches the expiry comparison: the debug line
  before it formats \<^verbatim>\<open>new Date(NaN)\<close> with \<^verbatim>\<open>toISOString()\<close>, which throws
  \<^verbatim>\<open>RangeError('Invalid time value')\<close>. \<^verbatim>\<open>decrypt\<close> fails with that error and makes
  no call into \<^verbatim>\<open>crypto\<close>: no key derivation, no HMAC verification.
\<close>

theorem decrypt_unparsable_timestamp:
  assumes "split_on (CHR '':'') (utf8_toString L (from_base64 L bundle)) = parts"
    and "length parts = 7"
    and "parseInt (parts ! 5) = None"
  shows "decrypt L c now bundle = (Inl (RangeError ''Invalid time value''), c, [])"
  using assms
  by (simp add: decrypt_def decrypt_decoded_def Let_def valid_time_value_def)

theorem decrypt_unparsable_timestamp_witness:
  "split_on (CHR '':'') (utf8_toString demo (from_base64 demo ''id:eG:iv:data:tag:abc:mac'')) =
     [''id'', ''eG'', ''iv'', ''data'', ''tag'', ''abc'', ''mac''] \<and>
   parseInt ''abc'' = None \<and>
   decrypt demo bob 1609459201000 ''id:eG:iv:data:tag:abc:mac'' =
     (Inl (RangeError ''Invalid time value''), bob, [])"
proof -
  let ?p = "[''id'', ''eG'', ''iv'', ''data'', ''tag'', ''abc'', ''mac'']"
  have s: "split_on (CHR '':'')
      (utf8_toString demo (from_base64 demo ''id:eG:iv:data:tag:abc:mac'')) = ?p"
    by (simp add: demo_def)
  have l: "length ?p = 7" by simp
  have t: "parseInt (?p ! 5) = None"
    by (simp add: parseInt_abc)
  show ?thesis
    using decrypt_unparsable_timestamp [OF s l t, of bob 1609459201000] s parseInt_abc
    by simp
qed


section \<open>The round trip\<close>

text \<open>
  What the receiver gets back is the payload as \<^verbatim>\<open>encrypt\<close> serialised it: the
  caller's payload with \<^verbatim>\<open>clientPublicKey\<close> set to the sender's public key.
\<close>

lemma roundtrip_merged:
  assumes codecs: "sound_codecs L" and cipher: "sound_cipher L"
    and iv: "length (randomIv rnd) = 12"
    and peer: "peerPub \<noteq> []"
    and agree1: "ecdh_secret L (curve sender) (ephemeralPrivateKey rnd) (from_hex L peerPub) = Some secret"
    and agree2: "ecdh_secret L (curve receiver) (from_hex L (privateKey receiver))
                   (ecdh_public L (curve sender) (ephemeralPrivateKey rnd)) = Some secret"
    and json: "JSON_parse L (JSON_stringify L
                 (JObj (AList.update ''clientPublicKey'' (JStr (publicKey sender)) P))) =
               Some (JObj (AList.update ''clientPublicKey'' (JStr (publicKey sender)) P))"
    and clock: "\<bar>encNow\<bar> \<le> 8640000000000000" "decNow div 1000 - encNow div 1000 \<le> 300"
  shows "roundtrip L sender receiver encNow decNow rnd P peerPub =
           Inr (JObj (AList.update ''clientPublicKey'' (JStr (publicKey sender)) P))"
proof -
  define merged where "merged = JObj (AList.update ''clientPublicKey'' (JStr (publicKey sender)) P)"
  define key where "key = take 32 (sha256 L secret)"
  define ct where "ct = fst (aes_gcm_encrypt L key (randomIv rnd) (JSON_stringify L merged))"
  define tag where "tag = snd (aes_gcm_encrypt L key (randomIv rnd) (JSON_stringify L merged))"
  define cid where "cid = take 8 (to_hex L (sha256 L (publicKey sender)))"
  define eph where "eph = to_hex L (ecdh_public L (curve sender) (ephemeralPrivateKey rnd))"
  define ts where "ts = show_int (encNow div 1000)"
  define body where "body = cid @ '':'' @ eph @ '':'' @ to_base64 L (randomIv rnd) @ '':'' @
      to_base64 L ct @ '':'' @ to_base64 L tag @ '':'' @ ts"
  define mac where "mac = to_base64 L (hmac_sha256 L (sha256 L secret @ ''HMAC_KEY'') body)"
  have hexr: "\<And>x. from_hex L (to_hex L x) = x" and b64r: "\<And>x. from_base64 L (to_base64 L x) = x"
    and hexc: "\<And>x. CHR '':'' \<notin> set (to_hex L x)" and b64c: "\<And>x. CHR '':'' \<notin> set (to_base64 L x)"
    and hexa: "\<And>x. ascii (to_hex L x)" and b64a: "\<And>x. ascii (to_base64 L x)"
    and utf8: "\<And>s. ascii s \<Longrightarrow> utf8_toString L s = s"
    and ser: "\<And>v. utf8_toString L (JSON_stringify L v) = JSON_stringify L v"
    using codecs by (simp_all add: sound_codecs_def)
  have enc: "encrypt L sender encNow rnd P peerPub =
      (Inr (to_base64 L (body @ '':'' @ mac)), sender,
       [CreateECDH, CreateHash, RandomBytes, CreateCipheriv, CreateHash, CreateHmac])"
    using peer agree1
    by (simp add: encrypt_def encrypt_with_def Let_def split_beta merged_def key_def ct_def tag_def
          cid_def eph_def ts_def body_def mac_def)
  have cidc: "CHR '':'' \<notin> set cid"
    using hexc [of "sha256 L (publicKey sender)"] by (auto simp: cid_def dest: in_set_takeD)
  have parts: "split_on (CHR '':'') (body @ '':'' @ mac) =
      [cid, eph, to_base64 L (randomIv rnd), to_base64 L ct, to_base64 L tag, ts, mac]"
    unfolding body_def
    using split_on_seven [OF cidc hexc b64c b64c b64c colon_notin_show_int b64c,
        of "ecdh_public L (curve sender) (ephemeralPrivateKey rnd)" "randomIv rnd" ct tag
           "encNow div 1000" "hmac_sha256 L (sha256 L secret @ ''HMAC_KEY'') body"]
    by (simp add: eph_def ts_def mac_def body_def)
  have "ascii (body @ '':'' @ mac)"
    by (simp add: body_def mac_def cid_def eph_def ts_def ascii_append ascii_Cons ascii_take hexa b64a
          ascii_show_int)
  then have decoded: "utf8_toString L (body @ '':'' @ mac) = body @ '':'' @ mac"
    by (rule utf8)
  have keylen: "length key = 32"
    using cipher by (simp add: key_def sound_cipher_def)
  have aes: "aes_gcm_decrypt L key (randomIv rnd) ct tag = Some (JSON_stringify L merged)"
    using cipher keylen iv unfolding ct_def tag_def sound_cipher_def by blast
  have valid: "valid_time_value (map_option (\<lambda>t. t * 1000) (parseInt ts))"
    using seconds_in_range [OF clock(1)] by (simp add: ts_def parseInt_show_int valid_time_value_def)
  have heph: "from_hex L eph = ecdh_public L (curve sender) (ephemeralPrivateKey rnd)"
    by (simp add: eph_def hexr)
  have expected: "to_base64 L (hmac_sha256 L (sha256 L secret @ ''HMAC_KEY'')
      (cid @ '':'' @ eph @ '':'' @ to_base64 L (randomIv rnd) @ '':'' @ to_base64 L ct @ '':'' @
       to_base64 L tag @ '':'' @ ts)) = mac"
    by (simp add: mac_def body_def)
  have fresh: "\<not> decNow div 1000 - encNow div 1000 > 300"
    using clock(2) by simp
  have dec: "fst (decrypt_decoded L receiver decNow (body @ '':'' @ mac)) = Inr merged"
    unfolding decrypt_decoded_def parts
    using valid fresh aes json expected
    by (simp add: Let_def heph agree2 b64r key_def [symmetric] parseInt_show_int ts_def
          merged_def [symmetric] ser)
  show ?thesis
    using enc dec decoded by (simp add: roundtrip_def decrypt_def b64r merged_def)
qed

lemma demo_iv_length: "length (randomIv demo_draws) = 12"
  by (simp add: demo_draws_def)

lemma demo_agree_sender:
  "ecdh_secret demo (curve alice) (ephemeralPrivateKey demo_draws) (from_hex demo ''bG'') = Some ''K''"
  by (simp add: demo_def demo_draws_def)

lemma demo_agree_receiver:
  "ecdh_secret demo (curve bob) (from_hex demo (privateKey bob))
     (ecdh_public demo (curve alice) (ephemeralPrivateKey demo_draws)) = Some ''K''"
  by (simp add: demo_def demo_draws_def bob_def)

lemma demo_merged:
  "AList.update ''clientPublicKey'' (JStr (publicKey alice)) [(''test'', JStr ''data'')] =
     [(''test'', JStr ''data''), (''clientPublicKey'', JStr ''aG'')]"
  by (simp add: alice_def)

lemma demo_merged_json:
  "JSON_parse demo (JSON_stringify demo
     (JObj (AList.update ''clientPublicKey'' (JStr (publicKey alice)) [(''test'', JStr ''data'')]))) =
   Some (JObj (AList.update ''clientPublicKey'' (JStr (publicKey alice)) [(''test'', JStr ''data'')]))"
  unfolding demo_merged by (simp add: demo_def demo_stringify_def demo_json_def quoted_def)

lemma demo_roundtrip:
  "roundtrip demo alice bob 1609459200000 1609459201000 demo_draws [(''test'', JStr ''data'')] ''bG'' =
     Inr (JObj [(''test'', JStr ''data''), (''clientPublicKey'', JStr ''aG'')])"
  using roundtrip_merged [OF sound_codecs_demo sound_cipher_demo demo_iv_length _
          demo_agree_sender demo_agree_receiver demo_merged_json,
          of 1609459200000 1609459201000]
  by (simp add: alice_def)

text \<open>
  C1, as the claim states it, fails: the payload \<^verbatim>\<open>{test: 'data'}\<close> comes back as
  \<^verbatim>\<open>{test: 'data', clientPublicKey: 'aG'}\<close>, with the field that \<^verbatim>\<open>encrypt\<close> adds.
\<close>

theorem roundtrip_not_identity:
  "roundtrip demo alice bob 1609459200000 1609459201000 demo_draws [(''test'', JStr ''data'')] ''bG'' =
     Inr (JObj [(''test'', JStr ''data''), (''clientPublicKey'', JStr ''aG'')]) \<and>
   roundtrip demo alice bob 1609459200000 1609459201000 demo_draws [(''test'', JStr ''data'')] ''bG'' \<noteq>
     Inr (JObj [(''test'', JStr ''data'')])"
  by (simp add: demo_roundtrip)

text \<open>
  C1, amended. Let the codecs and the cipher be sound, the iv have 12 bytes, the peer
  key be non-empty and the key pair match: the sender's ephemeral private key with the
  peer's public key, and the receiver's private key with the ephemeral public key,
  agree on one secret. Let the merged payload survive \<^verbatim>\<open>JSON.stringify\<close> and
  \<^verbatim>\<open>JSON.parse\<close>, the sender's clock be in the range of dates, and the receiver
  decrypt at most 300 seconds after the envelope's timestamp. Then
  \<^verbatim>\<open>decrypt(encrypt(P, peerPub))\<close> is \<open>P\<close> with \<^verbatim>\<open>clientPublicKey\<close> set to the sender's
  long-term public key (\<open>P\<close> itself only if \<open>P\<close> already has that field with that value).
\<close>

theorem encrypt_decrypt_roundtrip:
  assumes "sound_codecs L" and "sound_cipher L"
    and "length (randomIv rnd) = 12"
    and "peerPub \<noteq> []"
    and "ecdh_secret L (curve sender) (ephemeralPrivateKey rnd) (from_hex L peerPub) = Some secret"
    and "ecdh_secret L (curve receiver) (from_hex L (privateKey receiver))
           (ecdh_public L (curve sender) (ephemeralPrivateKey rnd)) = Some secret"
    and "JSON_parse L (JSON_stringify L
           (JObj (AList.update ''clientPublicKey'' (JStr (publicKey sender)) P))) =
         Some (JObj (AList.update ''clientPublicKey'' (JStr (publicKey sender)) P))"
    and "\<bar>encNow\<bar> \<le> 8640000000000000" and "decNow div 1000 - encNow div 1000 \<le> 300"
  shows "roundtrip L sender receiver encNow decNow rnd P peerPub =
           Inr (JObj (AList.update ''clientPublicKey'' (JStr (publicKey sender)) P))"
  using assms by (rule roundtrip_merged)

theorem encrypt_decrypt_roundtrip_witness:
  "sound_codecs demo \<and> sound_cipher demo \<and> length (randomIv demo_draws) = 12 \<and>
   ecdh_secret demo (curve alice) (ephemeralPrivateKey demo_draws) (from_hex demo ''bG'') = Some ''K'' \<and>
   ecdh_secret demo (curve bob) (from_hex demo (privateKey bob))
     (ecdh_public demo (curve alice) (ephemeralPrivateKey demo_draws)) = Some ''K'' \<and>
   roundtrip demo alice bob 1609459200000 1609459500999 demo_draws [(''test'', JStr ''data'')] ''bG'' =
     Inr (JObj [(''test'', JStr ''data''), (''clientPublicKey'', JStr ''aG'')])"
  using encrypt_decrypt_roundtrip [OF sound_codecs_demo sound_cipher_demo demo_iv_length _
          demo_agree_sender demo_agree_receiver demo_merged_json,
          of 1609459200000 1609459500999]
        sound_codecs_demo sound_cipher_demo demo_iv_length demo_agree_sender demo_agree_receiver
  by (simp add: alice_def)


section \<open>The key exchange\<close>




text \<open>
  A key that is not a string is stored all the same, and the call then fails in the
  debug line that follows the assignment.
\<close>

lemma getServerPublicKey_key_not_a_string:
  assumes "fetch \<lparr>req_url = baseUrl @ ''/api/v4/keys/public'', req_method = ''POST'',
                   req_headers = [(''Content-Type'', ''application/json'')],
                   req_body = Some (JSON_stringify L (JObj [(''clientPublicKey'', JStr (publicKey c))]))\<rparr> =
           Some response"
    and "resp_ok response" and "JSON_parse L (resp_text response) = Some body"
    and "get_property body ''serverPublicKey'' = Inr (Some v)" and "truthy (Some v)"
    and "\<forall>key. v \<noteq> JStr key"
  shows "getServerPublicKey L fetch c baseUrl = (Inl TypeError, c\<lparr>serverPublicKey := v\<rparr>)"
  using assms by (cases v) (simp_all add: getServerPublicKey_def Let_def)

section \<open>The request orchestrator\<close>

lemma encrypt_with_self: "fst (snd (encrypt_with L c now rnd data peerKey)) = c"
  by (simp add: encrypt_with_def Let_def split: option.splits prod.splits)

lemma encrypt_self: "fst (snd (encrypt L c now rnd data peerKey)) = c"
  by (simp add: encrypt_def encrypt_with_self)

lemma decrypt_decoded_self: "fst (snd (decrypt_decoded L c now decoded)) = c"
  by (simp add: decrypt_decoded_def Let_def split: option.splits prod.splits)

lemma decrypt_self: "fst (snd (decrypt L c now bundle)) = c"
  by (simp add: decrypt_def decrypt_decoded_self)

lemma encrypt_returns:
  assumes "k \<noteq> []"
    and "ecdh_secret L (curve c) (ephemeralPrivateKey rnd) (from_hex L k) = Some secret"
  shows "\<exists>envelope. fst (encrypt L c now rnd data k) = Inr envelope"
  using assms by (simp add: encrypt_def encrypt_with_def Let_def split_beta)

lemma demo_carol_encrypts:
  "\<exists>envelope. fst (encrypt demo carol (encryptNow demo_ambient) (draws demo_ambient) data ''bG'') = Inr envelope"
  by (rule encrypt_returns [where secret = "''K''"])
     (simp_all add: demo_def demo_ambient_def demo_draws_def)

text \<open>
  The path of \<^verbatim>\<open>makeRequest\<close> on which a peer key is cached, the payload encrypts,
  the response is ok and its body is JSON with an \<^verbatim>\<open>ENC\<close> field holding a non-empty
  string: the outcome follows \<^verbatim>\<open>decrypt\<close>, and an error thrown by \<^verbatim>\<open>decrypt\<close> is caught
  by the \<^verbatim>\<open>catch\<close> of the block that parses the body.
\<close>

lemma makeRequest_encrypted_response:
  assumes origin: "URL_origin L endpoint = Some baseUrl"
    and key: "serverPublicKey c = JStr k" "k \<noteq> []"
    and enc: "fst (encrypt L c (encryptNow amb) (draws amb) data k) = Inr envelope"
    and net: "fetch \<lparr>req_url = endpoint @ ''?ENC='' @ encodeURIComponent L envelope, req_method = ''GET'',
                     req_headers = [(''Content-Type'', ''application/json'')], req_body = None\<rparr> =
              Some response"
    and ok: "resp_ok response"
    and parse: "JSON_parse L (resp_text response) = Some body"
    and field: "get_property body ''ENC'' = Inr (Some (JStr bundle))" "bundle \<noteq> []"
  shows "makeRequest L fetch amb c endpoint data =
           (case fst (decrypt L c (decryptNow amb) bundle) of
              Inr decryptedData \<Rightarrow>
                (Inr \<lparr>status = resp_status response,
                      duration = of_int (endTime amb - startTime amb) / 1000,
                      responseData = Some decryptedData, responseText = None, filePath = None\<rparr>, c)
            | Inl e \<Rightarrow>
                (Inr \<lparr>status = resp_status response,
                      duration = of_int (endTime amb - startTime amb) / 1000,
                      responseData = None, responseText = Some (resp_text response),
                      filePath = None\<rparr>, c))"
proof -
  obtain calls where e: "encrypt L c (encryptNow amb) (draws amb) data k = (Inr envelope, c, calls)"
    using enc encrypt_self [of L c "encryptNow amb" "draws amb" data k]
    by (cases "encrypt L c (encryptNow amb) (draws amb) data k") auto
  obtain outcome dcalls where d: "decrypt L c (decryptNow amb) bundle = (outcome, c, dcalls)"
    using decrypt_self [of L c "decryptNow amb" "bundle"]
    by (cases "decrypt L c (decryptNow amb) bundle") auto
  show ?thesis
    using origin key e net ok parse field d
    by (cases outcome) (simp_all add: makeRequest_def encrypt_value_def decrypt_value_def Let_def)
qed


text \<open>Every result that \<^verbatim>\<open>makeRequest\<close> returns has exactly one of \<^verbatim>\<open>responseData\<close>
  and \<^verbatim>\<open>responseText\<close>.\<close>

lemma makeRequest_shape:
  "case fst (makeRequest L fetch amb c endpoint data) of
     Inl e \<Rightarrow> True
   | Inr r \<Rightarrow> (responseData r = None) \<noteq> (responseText r = None)"
  by (simp add: makeRequest_def Let_def
        split: option.split sum.split prod.split if_split)

lemma makeRequest_exactly_one:
  assumes "fst (makeRequest L fetch amb c endpoint data) = Inr r"
  shows "(responseData r = None) \<noteq> (responseText r = None)"
  using makeRequest_shape [of L fetch amb c endpoint data] assms by simp

text \<open>
  C2. On that path \<^verbatim>\<open>makeRequest\<close> decrypts the value of \<^verbatim>\<open>ENC\<close> and, when
  \<^verbatim>\<open>decrypt\<close> returns, gives \<^verbatim>\<open>{status, duration, responseData: <decrypted>}\<close>. When
  \<^verbatim>\<open>decrypt\<close> throws, the error does not reach the caller: \<^verbatim>\<open>makeRequest\<close> returns
  \<^verbatim>\<open>{status, duration, responseText: <raw body>}\<close>. The claim says the error is raised.
\<close>

theorem makeRequest_ENC_field:
  assumes "URL_origin L endpoint = Some baseUrl"
    and "serverPublicKey c = JStr k" and "k \<noteq> []"
    and "fst (encrypt L c (encryptNow amb) (draws amb) data k) = Inr envelope"
    and "fetch \<lparr>req_url = endpoint @ ''?ENC='' @ encodeURIComponent L envelope, req_method = ''GET'',
                  req_headers = [(''Content-Type'', ''application/json'')], req_body = None\<rparr> =
           Some response"
    and "resp_ok response"
    and "JSON_parse L (resp_text response) = Some body"
    and "get_property body ''ENC'' = Inr (Some (JStr bundle))" and "bundle \<noteq> []"
  shows "makeRequest L fetch amb c endpoint data =
           (case fst (decrypt L c (decryptNow amb) bundle) of
              Inr decryptedData \<Rightarrow>
                (Inr \<lparr>status = resp_status response,
                      duration = of_int (endTime amb - startTime amb) / 1000,
                      responseData = Some decryptedData, responseText = None, filePath = None\<rparr>, c)
            | Inl e \<Rightarrow>
                (Inr \<lparr>status = resp_status response,
                      duration = of_int (endTime amb - startTime amb) / 1000,
                      responseData = None, responseText = Some (resp_text response),
                      filePath = None\<rparr>, c))"
  using assms by (rule makeRequest_encrypted_response)

theorem makeRequest_ENC_field_witness:
  "fst (decrypt demo carol (decryptNow demo_ambient) ''AAAA'') =
     Inl (Error ''invalid format: 1 parts'') \<and>
   makeRequest demo (demo_fetch (''{'' @ quoted ''ENC'' @ '':'' @ quoted ''AAAA'' @ ''}'')) demo_ambient
     carol ''https://api.example.com/endpoint'' [(''test'', JStr ''data'')] =
   (Inr \<lparr>status = 200, duration = 1 / 2, responseData = None,
         responseText = Some (''{'' @ quoted ''ENC'' @ '':'' @ quoted ''AAAA'' @ ''}''),
         filePath = None\<rparr>, carol)"
proof -
  let ?body = "''{'' @ quoted ''ENC'' @ '':'' @ quoted ''AAAA'' @ ''}''"
  obtain envelope where e: "fst (encrypt demo carol (encryptNow demo_ambient) (draws demo_ambient)
      [(''test'', JStr ''data'')] ''bG'') = Inr envelope"
    using demo_carol_encrypts by blast
  have k: "serverPublicKey carol = JStr ''bG''" by (simp add: carol_def)
  have p: "JSON_parse demo (resp_text \<lparr>resp_ok = True, resp_status = 200, resp_text = ?body\<rparr>) =
      Some (JObj [(''ENC'', JStr ''AAAA'')])"
    by (simp add: demo_def demo_json_def quoted_def)
  have f: "get_property (JObj [(''ENC'', JStr ''AAAA'')]) ''ENC'' = Inr (Some (JStr ''AAAA''))"
    by simp
  have g: "demo_fetch ?body
      \<lparr>req_url = ''https://api.example.com/endpoint'' @ ''?ENC='' @ encodeURIComponent demo envelope,
         req_method = ''GET'', req_headers = [(''Content-Type'', ''application/json'')],
         req_body = None\<rparr> = Some \<lparr>resp_ok = True, resp_status = 200, resp_text = ?body\<rparr>"
    by (rule demo_get)
  show ?thesis
    using makeRequest_ENC_field
            [where fetch = "demo_fetch ?body" and L = demo and envelope = envelope and
               response = "\<lparr>resp_ok = True, resp_status = 200, resp_text = ?body\<rparr>",
             OF demo_origin k _ e g _ p f]
    by (simp add: demo_decrypt_AAAA demo_ambient_def)
qed

text \<open>
  C7. The body \<^verbatim>\<open>{"ENC":"a:b:c"}\<close> parses as JSON, the envelope in it has three fields
  and \<^verbatim>\<open>decrypt\<close> throws; the result carries \<^verbatim>\<open>responseText\<close> and no
  \<^verbatim>\<open>responseData\<close>, where the claim (and the comments of \<^verbatim>\<open>RequestResponse\<close>) put
  \<^verbatim>\<open>responseData\<close> for a body that is JSON.
\<close>

theorem makeRequest_text_for_json_body:
  "JSON_parse demo (''{'' @ quoted ''ENC'' @ '':'' @ quoted ''a:b:c'' @ ''}'') =
     Some (JObj [(''ENC'', JStr ''a:b:c'')]) \<and>
   makeRequest demo (demo_fetch (''{'' @ quoted ''ENC'' @ '':'' @ quoted ''a:b:c'' @ ''}'')) demo_ambient
     carol ''https://api.example.com/endpoint'' [(''test'', JStr ''data'')] =
   (Inr \<lparr>status = 200, duration = 1 / 2, responseData = None,
         responseText = Some (''{'' @ quoted ''ENC'' @ '':'' @ quoted ''a:b:c'' @ ''}''),
         filePath = None\<rparr>, carol)"
proof -
  let ?body = "''{'' @ quoted ''ENC'' @ '':'' @ quoted ''a:b:c'' @ ''}''"
  obtain envelope where e: "fst (encrypt demo carol (encryptNow demo_ambient) (draws demo_ambient)
      [(''test'', JStr ''data'')] ''bG'') = Inr envelope"
    using demo_carol_encrypts by blast
  have k: "serverPublicKey carol = JStr ''bG''" by (simp add: carol_def)
  have p: "JSON_parse demo (resp_text \<lparr>resp_ok = True, resp_status = 200, resp_text = ?body\<rparr>) =
      Some (JObj [(''ENC'', JStr ''a:b:c'')])"
    by (simp add: demo_def demo_json_def quoted_def)
  have f: "get_property (JObj [(''ENC'', JStr ''a:b:c'')]) ''ENC'' = Inr (Some (JStr ''a:b:c''))"
    by simp
  have g: "demo_fetch ?body
      \<lparr>req_url = ''https://api.example.com/endpoint'' @ ''?ENC='' @ encodeURIComponent demo envelope,
         req_method = ''GET'', req_headers = [(''Content-Type'', ''application/json'')],
         req_body = None\<rparr> = Some \<lparr>resp_ok = True, resp_status = 200, resp_text = ?body\<rparr>"
    by (rule demo_get)
  show ?thesis
    using makeRequest_encrypted_response
            [where fetch = "demo_fetch ?body" and L = demo and envelope = envelope and
               response = "\<lparr>resp_ok = True, resp_status = 200, resp_text = ?body\<rparr>",
             OF demo_origin k _ e g _ p f] p
    by (simp add: demo_decrypt_abc demo_ambient_def)
qed


end
